theory Spec2Isabelle
  imports Main
begin

section \<open>Values exchanged with the client and the backend\<close>

text \<open>
  The gateway \<^verbatim>\<open>src/ui/app.py\<close> receives validated request models, sends JSON to
  the backend and hands Python dictionaries back to the web framework. JSON values are
  modelled as a datatype; an object keeps its members in order, as a Python \<^verbatim>\<open>dict\<close>
  does. \<open>JFloat m e\<close> stands for the double \<open>m * 2 ^ e\<close>.
\<close>

datatype json =
    JNull
  | JBool bool
  | JInt int
  | JFloat int int
  | JStr string
  | JArr "json list"
  | JObj "(string \<times> json) list"

text \<open>The four pydantic request models (lines 15--29 of the source).\<close>

record RegisterNodeRequest =
  node_id :: int

record EntangleNodesRequest =
  node1 :: int
  node2 :: int

record KeyExchangeRequest =
  node1 :: int
  node2 :: int

record SendMessageRequest =
  sender_id :: int
  receiver_id :: int
  message :: string

text \<open>\<^verbatim>\<open>request.dict()\<close>: the fields of a model, in declaration order.\<close>

definition RegisterNodeRequest_dict :: "RegisterNodeRequest \<Rightarrow> json" where
  "RegisterNodeRequest_dict request = JObj [(''node_id'', JInt (node_id request))]"

definition EntangleNodesRequest_dict :: "EntangleNodesRequest \<Rightarrow> json" where
  "EntangleNodesRequest_dict request =
     JObj [(''node1'', JInt (EntangleNodesRequest.node1 request)),
           (''node2'', JInt (EntangleNodesRequest.node2 request))]"

definition KeyExchangeRequest_dict :: "KeyExchangeRequest \<Rightarrow> json" where
  "KeyExchangeRequest_dict request =
     JObj [(''node1'', JInt (KeyExchangeRequest.node1 request)),
           (''node2'', JInt (KeyExchangeRequest.node2 request))]"

definition SendMessageRequest_dict :: "SendMessageRequest \<Rightarrow> json" where
  "SendMessageRequest_dict request =
     JObj [(''sender_id'', JInt (sender_id request)),
           (''receiver_id'', JInt (receiver_id request)),
           (''message'', JStr (message request))]"

text \<open>
  Python's \<^verbatim>\<open>str\<close> of an integer, which the f-string of \<^verbatim>\<open>get_node_status\<close>
  applies to the path parameter: decimal digits, most significant first, with a leading
  minus sign for a negative number. \<open>digit_char\<close> is only applied below ten.
\<close>

definition digit_char :: "nat \<Rightarrow> char" where
  "digit_char d = ''0123456789'' ! d"

function str_nat :: "nat \<Rightarrow> string" where
  "str_nat n = (if n < 10 then [digit_char n] else str_nat (n div 10) @ [digit_char (n mod 10)])"
  by pat_completeness auto
termination
  by (relation "measure id") auto

definition str_int :: "int \<Rightarrow> string" where
  "str_int i = (if i < 0 then CHR ''-'' # str_nat (nat (- i)) else str_nat (nat i))"

section \<open>The HTTP client library\<close>

datatype http_method = GET | POST

text \<open>One outbound call: the method, the URL and the JSON body (none for a GET).\<close>

record http_request =
  "method" :: http_method
  url :: string
  json_body :: "json option"

text \<open>The backend's reply, as far as the gateway reads it.\<close>

record Response =
  status_code :: int
  "text" :: string

text \<open>
  What a handler can raise: the framework's \<^verbatim>\<open>HTTPException(status_code, detail)\<close>,
  the decoding error of \<^verbatim>\<open>response.json()\<close>, and the transport error of
  \<^verbatim>\<open>requests.post\<close> and \<^verbatim>\<open>requests.get\<close> when no reply arrives.
\<close>

datatype error =
    HTTPException int string
  | JSONDecodeError
  | RequestException

text \<open>
  The network as the gateway sees it: the calls issued so far, oldest first, and the
  backend, which answers a call depending on everything it was sent before, or does not
  answer at all (\<open>None\<close>). A call appends itself to the calls issued; when no
  answer arrives the client library raises its exception.
\<close>

record world =
  sent :: "http_request list"
  backend :: "http_request list \<Rightarrow> http_request \<Rightarrow> Response option"

definition requests_request ::
  "http_method \<Rightarrow> string \<Rightarrow> json option \<Rightarrow> world \<Rightarrow> (error + Response) \<times> world" where
  "requests_request m u j w =
     (let rq = \<lparr>method = m, url = u, json_body = j\<rparr>;
          w' = w\<lparr>sent := sent w @ [rq]\<rparr>
      in case backend w (sent w) rq of
           None \<Rightarrow> (Inl RequestException, w')
         | Some r \<Rightarrow> (Inr r, w'))"

definition requests_post :: "string \<Rightarrow> json \<Rightarrow> world \<Rightarrow> (error + Response) \<times> world" where
  "requests_post u j = requests_request POST u (Some j)"

definition requests_get :: "string \<Rightarrow> world \<Rightarrow> (error + Response) \<times> world" where
  "requests_get u = requests_request GET u None"

text \<open>
  \<^verbatim>\<open>response.json()\<close>. The decoder belongs to the client library; it is the
  parameter \<open>loads\<close>, which gives \<open>None\<close> on a body that is not JSON.
\<close>

definition Response_json :: "(string \<Rightarrow> json option) \<Rightarrow> Response \<Rightarrow> error + json" where
  "Response_json loads response =
     (case loads (text response) of None \<Rightarrow> Inl JSONDecodeError | Some v \<Rightarrow> Inr v)"

section \<open>The gateway\<close>

definition RUST_API_URL :: string where
  "RUST_API_URL = ''http://localhost:8000''"

text \<open>
  Each handler takes the request and the network and gives its outcome (\<open>Inr\<close> the
  returned value, \<open>Inl\<close> the exception raised) with the network afterwards.
\<close>

text \<open>
  Lines 33--41:
  \<^verbatim>\<open>
  response = requests.post(f"{RUST_API_URL}/register", json=request.dict())
  if response.status_code == 201:
      return {"message": "Node registered successfully."}
  elif response.status_code == 409:
      raise HTTPException(status_code=409, detail="Node already exists.")
  raise HTTPException(status_code=response.status_code, detail=response.text)
  \<close>
\<close>

definition register_node :: "RegisterNodeRequest \<Rightarrow> world \<Rightarrow> (error + json) \<times> world" where
  "register_node request w =
     (case requests_post (RUST_API_URL @ ''/register'') (RegisterNodeRequest_dict request) w of
        (Inl e, w') \<Rightarrow> (Inl e, w')
      | (Inr response, w') \<Rightarrow>
          if status_code response = 201 then
            (Inr (JObj [(''message'', JStr ''Node registered successfully.'')]), w')
          else if status_code response = 409 then
            (Inl (HTTPException 409 ''Node already exists.''), w')
          else (Inl (HTTPException (status_code response) (text response)), w'))"

text \<open>
  Lines 43--49:
  \<^verbatim>\<open>
  response = requests.post(f"{RUST_API_URL}/entangle", json=request.dict())
  if response.status_code == 200:
      return {"message": "Nodes entangled successfully."}
  raise HTTPException(status_code=response.status_code, detail=response.text)
  \<close>
\<close>

definition entangle_nodes :: "EntangleNodesRequest \<Rightarrow> world \<Rightarrow> (error + json) \<times> world" where
  "entangle_nodes request w =
     (case requests_post (RUST_API_URL @ ''/entangle'') (EntangleNodesRequest_dict request) w of
        (Inl e, w') \<Rightarrow> (Inl e, w')
      | (Inr response, w') \<Rightarrow>
          if status_code response = 200 then
            (Inr (JObj [(''message'', JStr ''Nodes entangled successfully.'')]), w')
          else (Inl (HTTPException (status_code response) (text response)), w'))"

text \<open>
  Lines 51--57:
  \<^verbatim>\<open>
  response = requests.post(f"{RUST_API_URL}/exchange_keys", json=request.dict())
  if response.status_code == 200:
      return {"message": "Keys exchanged successfully."}
  raise HTTPException(status_code=response.status_code, detail=response.text)
  \<close>
\<close>

definition exchange_keys :: "KeyExchangeRequest \<Rightarrow> world \<Rightarrow> (error + json) \<times> world" where
  "exchange_keys request w =
     (case requests_post (RUST_API_URL @ ''/exchange_keys'') (KeyExchangeRequest_dict request) w of
        (Inl e, w') \<Rightarrow> (Inl e, w')
      | (Inr response, w') \<Rightarrow>
          if status_code response = 200 then
            (Inr (JObj [(''message'', JStr ''Keys exchanged successfully.'')]), w')
          else (Inl (HTTPException (status_code response) (text response)), w'))"

text \<open>
  Lines 59--65:
  \<^verbatim>\<open>
  response = requests.post(f"{RUST_API_URL}/send_message", json=request.dict())
  if response.status_code == 200:
      return response.json()
  raise HTTPException(status_code=response.status_code, detail=response.text)
  \<close>
\<close>

definition send_message ::
  "(string \<Rightarrow> json option) \<Rightarrow> SendMessageRequest \<Rightarrow> world \<Rightarrow> (error + json) \<times> world" where
  "send_message loads request w =
     (case requests_post (RUST_API_URL @ ''/send_message'') (SendMessageRequest_dict request) w of
        (Inl e, w') \<Rightarrow> (Inl e, w')
      | (Inr response, w') \<Rightarrow>
          if status_code response = 200 then (Response_json loads response, w')
          else (Inl (HTTPException (status_code response) (text response)), w'))"

text \<open>
  Lines 67--73; the parameter is the source's \<^verbatim>\<open>node_id\<close>, primed because the
  name is taken by the field of the register request:
  \<^verbatim>\<open>
  response = requests.get(f"{RUST_API_URL}/node_status/{node_id}")
  if response.status_code == 200:
      return response.json()
  raise HTTPException(status_code=response.status_code, detail=response.text)
  \<close>
\<close>

definition get_node_status ::
  "(string \<Rightarrow> json option) \<Rightarrow> int \<Rightarrow> world \<Rightarrow> (error + json) \<times> world" where
  "get_node_status loads node_id' w =
     (case requests_get (RUST_API_URL @ ''/node_status/'' @ str_int node_id') w of
        (Inl e, w') \<Rightarrow> (Inl e, w')
      | (Inr response, w') \<Rightarrow>
          if status_code response = 200 then (Response_json loads response, w')
          else (Inl (HTTPException (status_code response) (text response)), w'))"

section \<open>The outbound call of each handler\<close>

text \<open>
  Shorthand for the one call each handler hands to the client library; the statements
  below read it as the record on the right-hand side.
\<close>

abbreviation register_call :: "RegisterNodeRequest \<Rightarrow> http_request" where
  "register_call request \<equiv>
     \<lparr>method = POST, url = RUST_API_URL @ ''/register'',
      json_body = Some (RegisterNodeRequest_dict request)\<rparr>"

abbreviation entangle_call :: "EntangleNodesRequest \<Rightarrow> http_request" where
  "entangle_call request \<equiv>
     \<lparr>method = POST, url = RUST_API_URL @ ''/entangle'',
      json_body = Some (EntangleNodesRequest_dict request)\<rparr>"

abbreviation exchange_call :: "KeyExchangeRequest \<Rightarrow> http_request" where
  "exchange_call request \<equiv>
     \<lparr>method = POST, url = RUST_API_URL @ ''/exchange_keys'',
      json_body = Some (KeyExchangeRequest_dict request)\<rparr>"

abbreviation send_call :: "SendMessageRequest \<Rightarrow> http_request" where
  "send_call request \<equiv>
     \<lparr>method = POST, url = RUST_API_URL @ ''/send_message'',
      json_body = Some (SendMessageRequest_dict request)\<rparr>"

abbreviation status_call :: "int \<Rightarrow> http_request" where
  "status_call n \<equiv>
     \<lparr>method = GET, url = RUST_API_URL @ ''/node_status/'' @ str_int n, json_body = None\<rparr>"

section \<open>Example backends and an example decoder\<close>

text \<open>
  A backend that gives the same reply to every call, with no call issued yet; a backend
  that accepts a call the first time it sees it and rejects a repetition, and a network
  in which it has already seen one call of each handler; and a decoder that knows the
  JSON texts without members. They serve as concrete inputs.
\<close>

definition canned :: "Response \<Rightarrow> world" where
  "canned r = \<lparr>sent = [], backend = (\<lambda>history rq. Some r)\<rparr>"

definition once_only :: "http_request list \<Rightarrow> http_request \<Rightarrow> Response option" where
  "once_only history rq =
     (if rq \<in> set history then Some \<lparr>status_code = 409, text = ''conflict''\<rparr>
      else Some \<lparr>status_code = 201, text = ''created''\<rparr>)"

definition replayed :: world where
  "replayed =
     \<lparr>sent = [register_call \<lparr>node_id = 7\<rparr>,
              entangle_call \<lparr>EntangleNodesRequest.node1 = 1, EntangleNodesRequest.node2 = 2\<rparr>,
              exchange_call \<lparr>node1 = 1, node2 = 2\<rparr>,
              send_call \<lparr>sender_id = 1, receiver_id = 2, message = ''hi''\<rparr>,
              status_call 5],
      backend = once_only\<rparr>"

definition loads_literal :: "string \<Rightarrow> json option" where
  "loads_literal s =
     (if s = ''null'' then Some JNull
      else if s = ''true'' then Some (JBool True)
      else if s = ''false'' then Some (JBool False)
      else if s = ''[]'' then Some (JArr [])
      else if s = ''{}'' then Some (JObj [])
      else None)"

section \<open>What a handler sends and what it makes of the reply\<close>


lemma requests_request_reply:
  assumes "backend w (sent w) \<lparr>method = m, url = u, json_body = j\<rparr> = Some r"
  shows "fst (requests_request m u j w) = Inr r"
  using assms by (simp add: requests_request_def Let_def)

lemma requests_request_no_reply:
  assumes "backend w (sent w) \<lparr>method = m, url = u, json_body = j\<rparr> = None"
  shows "fst (requests_request m u j w) = Inl RequestException"
  using assms by (simp add: requests_request_def Let_def)


lemma register_node_reply:
  assumes "backend w (sent w) (register_call request) = Some r"
  shows "fst (register_node request w) =
     (if status_code r = 201 then Inr (JObj [(''message'', JStr ''Node registered successfully.'')])
      else if status_code r = 409 then Inl (HTTPException 409 ''Node already exists.'')
      else Inl (HTTPException (status_code r) (text r)))"
  using assms
  by (simp add: register_node_def requests_post_def requests_request_def Let_def)

lemma register_node_no_reply:
  assumes "backend w (sent w) (register_call request) = None"
  shows "fst (register_node request w) = Inl RequestException"
  using assms
  by (simp add: register_node_def requests_post_def requests_request_def Let_def)


lemma entangle_nodes_reply:
  assumes "backend w (sent w) (entangle_call request) = Some r"
  shows "fst (entangle_nodes request w) =
     (if status_code r = 200 then Inr (JObj [(''message'', JStr ''Nodes entangled successfully.'')])
      else Inl (HTTPException (status_code r) (text r)))"
  using assms
  by (simp add: entangle_nodes_def requests_post_def requests_request_def Let_def)

lemma entangle_nodes_no_reply:
  assumes "backend w (sent w) (entangle_call request) = None"
  shows "fst (entangle_nodes request w) = Inl RequestException"
  using assms
  by (simp add: entangle_nodes_def requests_post_def requests_request_def Let_def)


lemma exchange_keys_reply:
  assumes "backend w (sent w) (exchange_call request) = Some r"
  shows "fst (exchange_keys request w) =
     (if status_code r = 200 then Inr (JObj [(''message'', JStr ''Keys exchanged successfully.'')])
      else Inl (HTTPException (status_code r) (text r)))"
  using assms
  by (simp add: exchange_keys_def requests_post_def requests_request_def Let_def)

lemma exchange_keys_no_reply:
  assumes "backend w (sent w) (exchange_call request) = None"
  shows "fst (exchange_keys request w) = Inl RequestException"
  using assms
  by (simp add: exchange_keys_def requests_post_def requests_request_def Let_def)


lemma send_message_reply:
  assumes "backend w (sent w) (send_call request) = Some r"
  shows "fst (send_message loads request w) =
     (if status_code r = 200 then Response_json loads r
      else Inl (HTTPException (status_code r) (text r)))"
  using assms
  by (simp add: send_message_def requests_post_def requests_request_def Let_def)

lemma send_message_no_reply:
  assumes "backend w (sent w) (send_call request) = None"
  shows "fst (send_message loads request w) = Inl RequestException"
  using assms
  by (simp add: send_message_def requests_post_def requests_request_def Let_def)


lemma get_node_status_reply:
  assumes "backend w (sent w) (status_call n) = Some r"
  shows "fst (get_node_status loads n w) =
     (if status_code r = 200 then Response_json loads r
      else Inl (HTTPException (status_code r) (text r)))"
  using assms
  by (simp add: get_node_status_def requests_get_def requests_request_def Let_def)

lemma get_node_status_no_reply:
  assumes "backend w (sent w) (status_call n) = None"
  shows "fst (get_node_status loads n w) = Inl RequestException"
  using assms
  by (simp add: get_node_status_def requests_get_def requests_request_def Let_def)

lemma Response_json_decoded:
  "loads (text r) = Some v \<Longrightarrow> Response_json loads r = Inr v"
  by (simp add: Response_json_def)


lemma Response_json_Inr:
  "Response_json loads r = Inr v \<Longrightarrow> loads (text r) = Some v"
  by (simp add: Response_json_def split: option.splits)

lemma canned_reply: "backend (canned r) history rq = Some r"
  by (simp add: canned_def)

lemma canned_sent: "sent (canned r) = []"
  by (simp add: canned_def)


section \<open>Registration\<close>

text \<open>
  C2. Whatever the node identifier, when the backend answers the register call with
  status 201 the handler returns the fixed confirmation message; when it answers 409 the
  handler raises a 409 error whose detail is the fixed text "Node already exists."; for
  any other status it raises an error with that status and the backend's body as detail.
\<close>

theorem register_node_three_ways:
  assumes reply: "backend w (sent w) (register_call request) = Some r"
  shows "(status_code r = 201 \<longrightarrow>
            fst (register_node request w) =
              Inr (JObj [(''message'', JStr ''Node registered successfully.'')]))
       \<and> (status_code r = 409 \<longrightarrow>
            fst (register_node request w) = Inl (HTTPException 409 ''Node already exists.''))
       \<and> (status_code r \<noteq> 201 \<and> status_code r \<noteq> 409 \<longrightarrow>
            fst (register_node request w) = Inl (HTTPException (status_code r) (text r)))"
proof (intro conjI impI)
  assume "status_code r = 201"
  with register_node_reply [OF reply]
  show "fst (register_node request w) =
      Inr (JObj [(''message'', JStr ''Node registered successfully.'')])"
    by simp
next
  assume "status_code r = 409"
  with register_node_reply [OF reply]
  show "fst (register_node request w) = Inl (HTTPException 409 ''Node already exists.'')"
    by simp
next
  assume "status_code r \<noteq> 201 \<and> status_code r \<noteq> 409"
  with register_node_reply [OF reply]
  show "fst (register_node request w) = Inl (HTTPException (status_code r) (text r))"
    by simp
qed

theorem register_node_three_ways_witness:
  "fst (register_node \<lparr>node_id = 7\<rparr> (canned \<lparr>status_code = 201, text = ''created''\<rparr>)) =
     Inr (JObj [(''message'', JStr ''Node registered successfully.'')])
   \<and> fst (register_node \<lparr>node_id = 7\<rparr> (canned \<lparr>status_code = 409, text = ''duplicate''\<rparr>)) =
     Inl (HTTPException 409 ''Node already exists.'')
   \<and> fst (register_node \<lparr>node_id = 7\<rparr> (canned \<lparr>status_code = 500, text = ''boom''\<rparr>)) =
     Inl (HTTPException 500 ''boom'')"
  using
    register_node_three_ways [OF canned_reply, of "\<lparr>status_code = 201, text = ''created''\<rparr>"
      "\<lparr>node_id = 7\<rparr>"]
    register_node_three_ways [OF canned_reply, of "\<lparr>status_code = 409, text = ''duplicate''\<rparr>"
      "\<lparr>node_id = 7\<rparr>"]
    register_node_three_ways [OF canned_reply, of "\<lparr>status_code = 500, text = ''boom''\<rparr>"
      "\<lparr>node_id = 7\<rparr>"]
  by simp

section \<open>Entanglement and key exchange\<close>

text \<open>
  C3. For every pair of nodes, the entangle handler returns the fixed confirmation
  "Nodes entangled successfully." exactly when the backend answers 200, and otherwise
  raises an error with the backend's status and body; the key exchange handler behaves
  the same way with its own confirmation "Keys exchanged successfully.".
\<close>

theorem entangle_exchange_confirm_iff_200:
  "(backend w (sent w) (entangle_call request) = Some r \<longrightarrow>
      (fst (entangle_nodes request w) =
          Inr (JObj [(''message'', JStr ''Nodes entangled successfully.'')])
        \<longleftrightarrow> status_code r = 200)
    \<and> (status_code r \<noteq> 200 \<longrightarrow>
          fst (entangle_nodes request w) = Inl (HTTPException (status_code r) (text r))))
   \<and> (backend w' (sent w') (exchange_call request') = Some r' \<longrightarrow>
      (fst (exchange_keys request' w') =
          Inr (JObj [(''message'', JStr ''Keys exchanged successfully.'')])
        \<longleftrightarrow> status_code r' = 200)
    \<and> (status_code r' \<noteq> 200 \<longrightarrow>
          fst (exchange_keys request' w') = Inl (HTTPException (status_code r') (text r'))))"
proof (rule conjI)
  show "backend w (sent w) (entangle_call request) = Some r \<longrightarrow>
      (fst (entangle_nodes request w) =
          Inr (JObj [(''message'', JStr ''Nodes entangled successfully.'')])
        \<longleftrightarrow> status_code r = 200)
    \<and> (status_code r \<noteq> 200 \<longrightarrow>
          fst (entangle_nodes request w) = Inl (HTTPException (status_code r) (text r)))"
  proof
    assume "backend w (sent w) (entangle_call request) = Some r"
    from entangle_nodes_reply [OF this] show
      "(fst (entangle_nodes request w) =
          Inr (JObj [(''message'', JStr ''Nodes entangled successfully.'')])
        \<longleftrightarrow> status_code r = 200)
       \<and> (status_code r \<noteq> 200 \<longrightarrow>
          fst (entangle_nodes request w) = Inl (HTTPException (status_code r) (text r)))"
      by (cases "status_code r = 200") simp_all
  qed
next
  show "backend w' (sent w') (exchange_call request') = Some r' \<longrightarrow>
      (fst (exchange_keys request' w') =
          Inr (JObj [(''message'', JStr ''Keys exchanged successfully.'')])
        \<longleftrightarrow> status_code r' = 200)
    \<and> (status_code r' \<noteq> 200 \<longrightarrow>
          fst (exchange_keys request' w') = Inl (HTTPException (status_code r') (text r')))"
  proof
    assume "backend w' (sent w') (exchange_call request') = Some r'"
    from exchange_keys_reply [OF this] show
      "(fst (exchange_keys request' w') =
          Inr (JObj [(''message'', JStr ''Keys exchanged successfully.'')])
        \<longleftrightarrow> status_code r' = 200)
       \<and> (status_code r' \<noteq> 200 \<longrightarrow>
          fst (exchange_keys request' w') = Inl (HTTPException (status_code r') (text r')))"
      by (cases "status_code r' = 200") simp_all
  qed
qed

theorem entangle_exchange_confirm_iff_200_witness:
  "backend (canned \<lparr>status_code = 200, text = ''ok''\<rparr>)
      (sent (canned \<lparr>status_code = 200, text = ''ok''\<rparr>))
      (entangle_call \<lparr>EntangleNodesRequest.node1 = 1, EntangleNodesRequest.node2 = 2\<rparr>) =
     Some \<lparr>status_code = 200, text = ''ok''\<rparr>
   \<and> fst (entangle_nodes \<lparr>EntangleNodesRequest.node1 = 1, EntangleNodesRequest.node2 = 2\<rparr>
         (canned \<lparr>status_code = 200, text = ''ok''\<rparr>)) =
       Inr (JObj [(''message'', JStr ''Nodes entangled successfully.'')])
   \<and> backend (canned \<lparr>status_code = 404, text = ''no such node''\<rparr>)
      (sent (canned \<lparr>status_code = 404, text = ''no such node''\<rparr>))
      (exchange_call \<lparr>node1 = 1, node2 = 2\<rparr>) =
     Some \<lparr>status_code = 404, text = ''no such node''\<rparr>
   \<and> fst (exchange_keys \<lparr>node1 = 1, node2 = 2\<rparr>
         (canned \<lparr>status_code = 404, text = ''no such node''\<rparr>)) =
       Inl (HTTPException 404 ''no such node'')"
  using entangle_exchange_confirm_iff_200
    [of "canned \<lparr>status_code = 200, text = ''ok''\<rparr>"
        "\<lparr>EntangleNodesRequest.node1 = 1, EntangleNodesRequest.node2 = 2\<rparr>"
        "\<lparr>status_code = 200, text = ''ok''\<rparr>"
        "canned \<lparr>status_code = 404, text = ''no such node''\<rparr>" "\<lparr>node1 = 1, node2 = 2\<rparr>"
        "\<lparr>status_code = 404, text = ''no such node''\<rparr>"]
  by (simp add: canned_reply)

section \<open>Sending a message\<close>

text \<open>
  C4. For every sender, receiver and message, when the backend answers the send call
  with status 200 the handler returns the JSON value of the backend's body as it is, and
  on any other status it raises an error with the backend's status and body. Among the
  POST handlers it is the only one whose returned value comes from the backend: whatever
  the other three return is their fixed confirmation.
\<close>

theorem send_message_passes_body_through:
  "(backend w (sent w) (send_call request) = Some r \<longrightarrow>
      (status_code r = 200 \<and> loads (text r) = Some v \<longrightarrow>
         fst (send_message loads request w) = Inr v)
    \<and> (status_code r \<noteq> 200 \<longrightarrow>
         fst (send_message loads request w) = Inl (HTTPException (status_code r) (text r))))
   \<and> (fst (register_node request1 w1) = Inr v1 \<longrightarrow>
         v1 = JObj [(''message'', JStr ''Node registered successfully.'')])
   \<and> (fst (entangle_nodes request2 w2) = Inr v2 \<longrightarrow>
         v2 = JObj [(''message'', JStr ''Nodes entangled successfully.'')])
   \<and> (fst (exchange_keys request3 w3) = Inr v3 \<longrightarrow>
         v3 = JObj [(''message'', JStr ''Keys exchanged successfully.'')])"
proof -
  have send: "backend w (sent w) (send_call request) = Some r \<longrightarrow>
      (status_code r = 200 \<and> loads (text r) = Some v \<longrightarrow>
         fst (send_message loads request w) = Inr v)
    \<and> (status_code r \<noteq> 200 \<longrightarrow>
         fst (send_message loads request w) = Inl (HTTPException (status_code r) (text r)))"
    by (simp add: send_message_reply Response_json_decoded)
  have reg: "v1 = JObj [(''message'', JStr ''Node registered successfully.'')]"
    if ok: "fst (register_node request1 w1) = Inr v1"
  proof (cases "backend w1 (sent w1) (register_call request1)")
    case None
    from register_node_no_reply [OF this] ok show ?thesis by simp
  next
    case (Some r1)
    from register_node_reply [OF this] ok show ?thesis
      by (simp split: if_splits)
  qed
  have ent: "v2 = JObj [(''message'', JStr ''Nodes entangled successfully.'')]"
    if ok: "fst (entangle_nodes request2 w2) = Inr v2"
  proof (cases "backend w2 (sent w2) (entangle_call request2)")
    case None
    from entangle_nodes_no_reply [OF this] ok show ?thesis by simp
  next
    case (Some r2)
    from entangle_nodes_reply [OF this] ok show ?thesis
      by (simp split: if_splits)
  qed
  have exc: "v3 = JObj [(''message'', JStr ''Keys exchanged successfully.'')]"
    if ok: "fst (exchange_keys request3 w3) = Inr v3"
  proof (cases "backend w3 (sent w3) (exchange_call request3)")
    case None
    from exchange_keys_no_reply [OF this] ok show ?thesis by simp
  next
    case (Some r3)
    from exchange_keys_reply [OF this] ok show ?thesis
      by (simp split: if_splits)
  qed
  from send reg ent exc show ?thesis by blast
qed

theorem send_message_passes_body_through_witness:
  "loads_literal ''[]'' = Some (JArr [])
   \<and> fst (send_message loads_literal \<lparr>sender_id = 1, receiver_id = 2, message = ''hi''\<rparr>
         (canned \<lparr>status_code = 200, text = ''[]''\<rparr>)) = Inr (JArr [])
   \<and> fst (register_node \<lparr>node_id = 7\<rparr> (canned \<lparr>status_code = 201, text = ''[]''\<rparr>)) =
       Inr (JObj [(''message'', JStr ''Node registered successfully.'')])
   \<and> fst (entangle_nodes \<lparr>EntangleNodesRequest.node1 = 1, EntangleNodesRequest.node2 = 2\<rparr>
         (canned \<lparr>status_code = 200, text = ''[]''\<rparr>)) =
       Inr (JObj [(''message'', JStr ''Nodes entangled successfully.'')])
   \<and> fst (exchange_keys \<lparr>node1 = 1, node2 = 2\<rparr> (canned \<lparr>status_code = 200, text = ''[]''\<rparr>)) =
       Inr (JObj [(''message'', JStr ''Keys exchanged successfully.'')])"
proof -
  let ?ok = "\<lparr>status_code = 200, text = ''[]''\<rparr>"
  let ?created = "\<lparr>status_code = 201, text = ''[]''\<rparr>"
  have dec: "loads_literal ''[]'' = Some (JArr [])"
    by (simp add: loads_literal_def)
  have reg: "fst (register_node \<lparr>node_id = 7\<rparr> (canned ?created)) =
      Inr (JObj [(''message'', JStr ''Node registered successfully.'')])"
    by (simp add: register_node_reply [OF canned_reply])
  have ent: "fst (entangle_nodes
      \<lparr>EntangleNodesRequest.node1 = 1, EntangleNodesRequest.node2 = 2\<rparr> (canned ?ok)) =
      Inr (JObj [(''message'', JStr ''Nodes entangled successfully.'')])"
    by (simp add: entangle_nodes_reply [OF canned_reply])
  have exc: "fst (exchange_keys \<lparr>node1 = 1, node2 = 2\<rparr> (canned ?ok)) =
      Inr (JObj [(''message'', JStr ''Keys exchanged successfully.'')])"
    by (simp add: exchange_keys_reply [OF canned_reply])
  from send_message_passes_body_through
    [of "canned ?ok" "\<lparr>sender_id = 1, receiver_id = 2, message = ''hi''\<rparr>" ?ok
        loads_literal "JArr []"
        "\<lparr>node_id = 7\<rparr>" "canned ?created"
        "JObj [(''message'', JStr ''Node registered successfully.'')]"
        "\<lparr>EntangleNodesRequest.node1 = 1, EntangleNodesRequest.node2 = 2\<rparr>" "canned ?ok"
        "JObj [(''message'', JStr ''Nodes entangled successfully.'')]"
        "\<lparr>node1 = 1, node2 = 2\<rparr>" "canned ?ok"
        "JObj [(''message'', JStr ''Keys exchanged successfully.'')]"]
  show ?thesis
    using dec reg ent exc by (simp add: canned_reply)
qed

section \<open>Node status\<close>



section \<open>Bodies that are not JSON\<close>



section \<open>Success is one status code per route\<close>

text \<open>
  C10. Each handler compares the backend's status with a single code. For entangle,
  key exchange and send, every status other than 200, the other 2xx codes such as 201
  and 204 included, raises the error that carries the backend's status and body; for
  register the same holds for every status other than 201 and 409, 200 included.
\<close>

theorem other_status_is_failure:
  "(backend w (sent w) (entangle_call request2) = Some r \<and> status_code r \<noteq> 200 \<longrightarrow>
      fst (entangle_nodes request2 w) = Inl (HTTPException (status_code r) (text r)))
   \<and> (backend w (sent w) (exchange_call request3) = Some r \<and> status_code r \<noteq> 200 \<longrightarrow>
      fst (exchange_keys request3 w) = Inl (HTTPException (status_code r) (text r)))
   \<and> (backend w (sent w) (send_call request4) = Some r \<and> status_code r \<noteq> 200 \<longrightarrow>
      fst (send_message loads request4 w) = Inl (HTTPException (status_code r) (text r)))
   \<and> (backend w (sent w) (register_call request1) = Some r
        \<and> status_code r \<noteq> 201 \<and> status_code r \<noteq> 409 \<longrightarrow>
      fst (register_node request1 w) = Inl (HTTPException (status_code r) (text r)))"
  by (auto simp: entangle_nodes_reply exchange_keys_reply send_message_reply
      register_node_reply)

theorem other_status_is_failure_witness:
  "fst (entangle_nodes \<lparr>EntangleNodesRequest.node1 = 1, EntangleNodesRequest.node2 = 2\<rparr>
        (canned \<lparr>status_code = 201, text = ''created''\<rparr>)) =
      Inl (HTTPException 201 ''created'')
   \<and> fst (exchange_keys \<lparr>node1 = 1, node2 = 2\<rparr> (canned \<lparr>status_code = 204, text = []\<rparr>)) =
      Inl (HTTPException 204 [])
   \<and> fst (send_message loads_literal \<lparr>sender_id = 1, receiver_id = 2, message = ''hi''\<rparr>
        (canned \<lparr>status_code = 201, text = ''{}''\<rparr>)) =
      Inl (HTTPException 201 ''{}'')
   \<and> fst (register_node \<lparr>node_id = 7\<rparr> (canned \<lparr>status_code = 200, text = ''ok''\<rparr>)) =
      Inl (HTTPException 200 ''ok'')"
proof -
  have a: "fst (entangle_nodes \<lparr>EntangleNodesRequest.node1 = 1, EntangleNodesRequest.node2 = 2\<rparr>
        (canned \<lparr>status_code = 201, text = ''created''\<rparr>)) =
      Inl (HTTPException 201 ''created'')"
    using other_status_is_failure
      [of "canned \<lparr>status_code = 201, text = ''created''\<rparr>"
          "\<lparr>EntangleNodesRequest.node1 = 1, EntangleNodesRequest.node2 = 2\<rparr>"
          "\<lparr>status_code = 201, text = ''created''\<rparr>"]
    by (simp add: canned_reply)
  have b: "fst (exchange_keys \<lparr>node1 = 1, node2 = 2\<rparr>
        (canned \<lparr>status_code = 204, text = []\<rparr>)) = Inl (HTTPException 204 [])"
    using other_status_is_failure
      [of "canned \<lparr>status_code = 204, text = []\<rparr>" _ "\<lparr>status_code = 204, text = []\<rparr>"
          "\<lparr>node1 = 1, node2 = 2\<rparr>"]
    by (simp add: canned_reply)
  have c: "fst (send_message loads_literal \<lparr>sender_id = 1, receiver_id = 2, message = ''hi''\<rparr>
        (canned \<lparr>status_code = 201, text = ''{}''\<rparr>)) = Inl (HTTPException 201 ''{}'')"
    using other_status_is_failure
      [of "canned \<lparr>status_code = 201, text = ''{}''\<rparr>" _ "\<lparr>status_code = 201, text = ''{}''\<rparr>" _
          "\<lparr>sender_id = 1, receiver_id = 2, message = ''hi''\<rparr>" loads_literal]
    by (simp add: canned_reply)
  have d: "fst (register_node \<lparr>node_id = 7\<rparr> (canned \<lparr>status_code = 200, text = ''ok''\<rparr>)) =
      Inl (HTTPException 200 ''ok'')"
    using other_status_is_failure
      [of "canned \<lparr>status_code = 200, text = ''ok''\<rparr>" _ "\<lparr>status_code = 200, text = ''ok''\<rparr>" _
          _ _ "\<lparr>node_id = 7\<rparr>"]
    by (simp add: canned_reply)
  from a b c d show ?thesis by simp
qed

section \<open>One call per request, to the route's address\<close>


section \<open>All or nothing, in one attempt\<close>


section \<open>The outcome depends on the request and the reply only\<close>

text \<open>
  C8. Every handler is deterministic and keeps no state: two runs of the same handler
  on the same request, in which the backend gives the same answer (the same status and
  body, or no answer both times), have the same outcome, whatever calls were made before
  either run and however the backend would answer anything else.
\<close>

theorem same_reply_same_outcome:
  "(backend w1 (sent w1) (register_call request1) = backend w2 (sent w2) (register_call request1)
      \<longrightarrow> fst (register_node request1 w1) = fst (register_node request1 w2))
   \<and> (backend w1 (sent w1) (entangle_call request2) = backend w2 (sent w2) (entangle_call request2)
      \<longrightarrow> fst (entangle_nodes request2 w1) = fst (entangle_nodes request2 w2))
   \<and> (backend w1 (sent w1) (exchange_call request3) = backend w2 (sent w2) (exchange_call request3)
      \<longrightarrow> fst (exchange_keys request3 w1) = fst (exchange_keys request3 w2))
   \<and> (backend w1 (sent w1) (send_call request4) = backend w2 (sent w2) (send_call request4)
      \<longrightarrow> fst (send_message loads request4 w1) = fst (send_message loads request4 w2))
   \<and> (backend w1 (sent w1) (status_call n) = backend w2 (sent w2) (status_call n)
      \<longrightarrow> fst (get_node_status loads n w1) = fst (get_node_status loads n w2))"
proof (intro conjI impI)
  assume same: "backend w1 (sent w1) (register_call request1) =
      backend w2 (sent w2) (register_call request1)"
  show "fst (register_node request1 w1) = fst (register_node request1 w2)"
  proof (cases "backend w1 (sent w1) (register_call request1)")
    case None
    with same have "backend w2 (sent w2) (register_call request1) = None" by simp
    with None show ?thesis by (simp add: register_node_no_reply)
  next
    case (Some r)
    with same have "backend w2 (sent w2) (register_call request1) = Some r" by simp
    with Some show ?thesis by (simp add: register_node_reply)
  qed
next
  assume same: "backend w1 (sent w1) (entangle_call request2) =
      backend w2 (sent w2) (entangle_call request2)"
  show "fst (entangle_nodes request2 w1) = fst (entangle_nodes request2 w2)"
  proof (cases "backend w1 (sent w1) (entangle_call request2)")
    case None
    with same have "backend w2 (sent w2) (entangle_call request2) = None" by simp
    with None show ?thesis by (simp add: entangle_nodes_no_reply)
  next
    case (Some r)
    with same have "backend w2 (sent w2) (entangle_call request2) = Some r" by simp
    with Some show ?thesis by (simp add: entangle_nodes_reply)
  qed
next
  assume same: "backend w1 (sent w1) (exchange_call request3) =
      backend w2 (sent w2) (exchange_call request3)"
  show "fst (exchange_keys request3 w1) = fst (exchange_keys request3 w2)"
  proof (cases "backend w1 (sent w1) (exchange_call request3)")
    case None
    with same have "backend w2 (sent w2) (exchange_call request3) = None" by simp
    with None show ?thesis by (simp add: exchange_keys_no_reply)
  next
    case (Some r)
    with same have "backend w2 (sent w2) (exchange_call request3) = Some r" by simp
    with Some show ?thesis by (simp add: exchange_keys_reply)
  qed
next
  assume same: "backend w1 (sent w1) (send_call request4) =
      backend w2 (sent w2) (send_call request4)"
  show "fst (send_message loads request4 w1) = fst (send_message loads request4 w2)"
  proof (cases "backend w1 (sent w1) (send_call request4)")
    case None
    with same have "backend w2 (sent w2) (send_call request4) = None" by simp
    with None show ?thesis by (simp add: send_message_no_reply)
  next
    case (Some r)
    with same have "backend w2 (sent w2) (send_call request4) = Some r" by simp
    with Some show ?thesis by (simp add: send_message_reply)
  qed
next
  assume same: "backend w1 (sent w1) (status_call n) = backend w2 (sent w2) (status_call n)"
  show "fst (get_node_status loads n w1) = fst (get_node_status loads n w2)"
  proof (cases "backend w1 (sent w1) (status_call n)")
    case None
    with same have "backend w2 (sent w2) (status_call n) = None" by simp
    with None show ?thesis by (simp add: get_node_status_no_reply)
  next
    case (Some r)
    with same have "backend w2 (sent w2) (status_call n) = Some r" by simp
    with Some show ?thesis by (simp add: get_node_status_reply)
  qed
qed

theorem same_reply_same_outcome_witness:
  "sent replayed \<noteq> sent (canned \<lparr>status_code = 409, text = ''conflict''\<rparr>)
   \<and> backend replayed \<noteq> backend (canned \<lparr>status_code = 409, text = ''conflict''\<rparr>)
   \<and> fst (register_node \<lparr>node_id = 7\<rparr> replayed) =
      fst (register_node \<lparr>node_id = 7\<rparr> (canned \<lparr>status_code = 409, text = ''conflict''\<rparr>))
   \<and> fst (entangle_nodes \<lparr>EntangleNodesRequest.node1 = 1, EntangleNodesRequest.node2 = 2\<rparr>
        replayed) =
      fst (entangle_nodes \<lparr>EntangleNodesRequest.node1 = 1, EntangleNodesRequest.node2 = 2\<rparr>
        (canned \<lparr>status_code = 409, text = ''conflict''\<rparr>))
   \<and> fst (exchange_keys \<lparr>node1 = 1, node2 = 2\<rparr> replayed) =
      fst (exchange_keys \<lparr>node1 = 1, node2 = 2\<rparr>
        (canned \<lparr>status_code = 409, text = ''conflict''\<rparr>))
   \<and> fst (send_message loads_literal \<lparr>sender_id = 1, receiver_id = 2, message = ''hi''\<rparr>
        replayed) =
      fst (send_message loads_literal \<lparr>sender_id = 1, receiver_id = 2, message = ''hi''\<rparr>
        (canned \<lparr>status_code = 409, text = ''conflict''\<rparr>))
   \<and> fst (get_node_status loads_literal 5 replayed) =
      fst (get_node_status loads_literal 5 (canned \<lparr>status_code = 409, text = ''conflict''\<rparr>))"
proof -
  let ?fresh = "canned \<lparr>status_code = 409, text = ''conflict''\<rparr>"
  have seen: "backend replayed (sent replayed) rq = backend ?fresh (sent ?fresh) rq"
    if "rq \<in> set (sent replayed)" for rq
    using that by (simp add: replayed_def once_only_def canned_reply)
  have calls: "register_call \<lparr>node_id = 7\<rparr> \<in> set (sent replayed)"
    "entangle_call \<lparr>EntangleNodesRequest.node1 = 1, EntangleNodesRequest.node2 = 2\<rparr>
      \<in> set (sent replayed)"
    "exchange_call \<lparr>node1 = 1, node2 = 2\<rparr> \<in> set (sent replayed)"
    "send_call \<lparr>sender_id = 1, receiver_id = 2, message = ''hi''\<rparr> \<in> set (sent replayed)"
    "status_call 5 \<in> set (sent replayed)"
    by (simp_all add: replayed_def)
  have differ: "sent replayed \<noteq> sent ?fresh"
    by (simp add: replayed_def canned_sent)
  have "backend replayed [] (status_call 5) \<noteq> backend ?fresh [] (status_call 5)"
    by (simp add: replayed_def once_only_def canned_reply)
  then have differ': "backend replayed \<noteq> backend ?fresh"
    by metis
  from same_reply_same_outcome
    [of replayed "\<lparr>node_id = 7\<rparr>" ?fresh
        "\<lparr>EntangleNodesRequest.node1 = 1, EntangleNodesRequest.node2 = 2\<rparr>"
        "\<lparr>node1 = 1, node2 = 2\<rparr>"
        "\<lparr>sender_id = 1, receiver_id = 2, message = ''hi''\<rparr>" loads_literal 5]
    seen [OF calls(1)] seen [OF calls(2)] seen [OF calls(3)] seen [OF calls(4)]
    seen [OF calls(5)] differ differ'
  show ?thesis by blast
qed

section \<open>Failures keep the backend's status and body\<close>

text \<open>
  The reading of C1 that the code does not satisfy: on every reply whose status is not
  the route's success status, the error carries the backend's status and the backend's
  body. The register handler answers a backend 409 with its own fixed detail, so with a
  backend body "duplicate" the error does not carry that body.
\<close>

theorem register_conflict_keeps_no_body:
  "backend (canned \<lparr>status_code = 409, text = ''duplicate''\<rparr>)
      (sent (canned \<lparr>status_code = 409, text = ''duplicate''\<rparr>))
      (register_call \<lparr>node_id = 7\<rparr>) = Some \<lparr>status_code = 409, text = ''duplicate''\<rparr>
   \<and> status_code \<lparr>status_code = 409, text = ''duplicate''\<rparr> \<noteq> 201
   \<and> fst (register_node \<lparr>node_id = 7\<rparr> (canned \<lparr>status_code = 409, text = ''duplicate''\<rparr>)) =
       Inl (HTTPException 409 ''Node already exists.'')
   \<and> fst (register_node \<lparr>node_id = 7\<rparr> (canned \<lparr>status_code = 409, text = ''duplicate''\<rparr>)) \<noteq>
       Inl (HTTPException (status_code \<lparr>status_code = 409, text = ''duplicate''\<rparr>)
             (text \<lparr>status_code = 409, text = ''duplicate''\<rparr>))"
  by (simp add: canned_reply register_node_reply [OF canned_reply])

text \<open>
  C1. For every request and every reply of the backend whose status is not the route's
  success status (201 for register, 200 for the other four), the handler raises an error
  whose status is the backend's status; its detail is the backend's body text for
  entangle, key exchange, send and node status, and for register on every status but
  409, where the detail is the fixed text "Node already exists.".
\<close>

theorem failure_keeps_status_and_body:
  "(backend w (sent w) (register_call request1) = Some r
        \<and> status_code r \<noteq> 201 \<and> status_code r \<noteq> 409 \<longrightarrow>
      fst (register_node request1 w) = Inl (HTTPException (status_code r) (text r)))
   \<and> (backend w (sent w) (register_call request1) = Some r \<and> status_code r = 409 \<longrightarrow>
      fst (register_node request1 w) =
        Inl (HTTPException (status_code r) ''Node already exists.''))
   \<and> (backend w (sent w) (entangle_call request2) = Some r \<and> status_code r \<noteq> 200 \<longrightarrow>
      fst (entangle_nodes request2 w) = Inl (HTTPException (status_code r) (text r)))
   \<and> (backend w (sent w) (exchange_call request3) = Some r \<and> status_code r \<noteq> 200 \<longrightarrow>
      fst (exchange_keys request3 w) = Inl (HTTPException (status_code r) (text r)))
   \<and> (backend w (sent w) (send_call request4) = Some r \<and> status_code r \<noteq> 200 \<longrightarrow>
      fst (send_message loads request4 w) = Inl (HTTPException (status_code r) (text r)))
   \<and> (backend w (sent w) (status_call n) = Some r \<and> status_code r \<noteq> 200 \<longrightarrow>
      fst (get_node_status loads n w) = Inl (HTTPException (status_code r) (text r)))"
proof -
  have "fst (register_node request1 w) = Inl (HTTPException (status_code r) (text r))"
    if "backend w (sent w) (register_call request1) = Some r"
      and "status_code r \<noteq> 201" and "status_code r \<noteq> 409"
    using register_node_reply [OF that(1)] that(2,3) by simp
  moreover
  have "fst (register_node request1 w) =
      Inl (HTTPException (status_code r) ''Node already exists.'')"
    if "backend w (sent w) (register_call request1) = Some r" and "status_code r = 409"
    using register_node_reply [OF that(1)] that(2) by simp
  moreover
  have "fst (entangle_nodes request2 w) = Inl (HTTPException (status_code r) (text r))"
    if "backend w (sent w) (entangle_call request2) = Some r" and "status_code r \<noteq> 200"
    using entangle_nodes_reply [OF that(1)] that(2) by simp
  moreover
  have "fst (exchange_keys request3 w) = Inl (HTTPException (status_code r) (text r))"
    if "backend w (sent w) (exchange_call request3) = Some r" and "status_code r \<noteq> 200"
    using exchange_keys_reply [OF that(1)] that(2) by simp
  moreover
  have "fst (send_message loads request4 w) = Inl (HTTPException (status_code r) (text r))"
    if "backend w (sent w) (send_call request4) = Some r" and "status_code r \<noteq> 200"
    using send_message_reply [OF that(1), of loads] that(2) by simp
  moreover
  have "fst (get_node_status loads n w) = Inl (HTTPException (status_code r) (text r))"
    if "backend w (sent w) (status_call n) = Some r" and "status_code r \<noteq> 200"
    using get_node_status_reply [OF that(1), of loads] that(2) by simp
  ultimately show ?thesis by blast
qed

theorem failure_keeps_status_and_body_witness:
  "fst (register_node \<lparr>node_id = 7\<rparr> (canned \<lparr>status_code = 500, text = ''boom''\<rparr>)) =
      Inl (HTTPException 500 ''boom'')
   \<and> fst (register_node \<lparr>node_id = 7\<rparr> (canned \<lparr>status_code = 409, text = ''duplicate''\<rparr>)) =
      Inl (HTTPException 409 ''Node already exists.'')
   \<and> fst (entangle_nodes \<lparr>EntangleNodesRequest.node1 = 1, EntangleNodesRequest.node2 = 2\<rparr>
        (canned \<lparr>status_code = 500, text = ''boom''\<rparr>)) = Inl (HTTPException 500 ''boom'')
   \<and> fst (exchange_keys \<lparr>node1 = 1, node2 = 2\<rparr> (canned \<lparr>status_code = 500, text = ''boom''\<rparr>)) =
      Inl (HTTPException 500 ''boom'')
   \<and> fst (send_message loads_literal \<lparr>sender_id = 1, receiver_id = 2, message = ''hi''\<rparr>
        (canned \<lparr>status_code = 500, text = ''boom''\<rparr>)) = Inl (HTTPException 500 ''boom'')
   \<and> fst (get_node_status loads_literal 5 (canned \<lparr>status_code = 500, text = ''boom''\<rparr>)) =
      Inl (HTTPException 500 ''boom'')"
  using
    failure_keeps_status_and_body
      [of "canned \<lparr>status_code = 500, text = ''boom''\<rparr>" "\<lparr>node_id = 7\<rparr>"
          "\<lparr>status_code = 500, text = ''boom''\<rparr>"
          "\<lparr>EntangleNodesRequest.node1 = 1, EntangleNodesRequest.node2 = 2\<rparr>"
          "\<lparr>node1 = 1, node2 = 2\<rparr>"
          "\<lparr>sender_id = 1, receiver_id = 2, message = ''hi''\<rparr>" loads_literal 5]
    failure_keeps_status_and_body
      [of "canned \<lparr>status_code = 409, text = ''duplicate''\<rparr>" "\<lparr>node_id = 7\<rparr>"
          "\<lparr>status_code = 409, text = ''duplicate''\<rparr>"]
  by (simp add: canned_reply)

end
